theory Spec2Isabelle
  imports Complex_Main
begin

section \<open>The voice assistant front end (App.tsx)\<close>

text \<open>
  The component \<open>App\<close> keeps four pieces of React state (\<open>connectionState\<close>, \<open>logs\<close>,
  \<open>volume\<close>, \<open>textInput\<close>) and a handful of mutable references (\<open>useRef\<close>). Every
  handler of the component is embedded as a function from the state before the handler
  runs to the state after it, paired with the calls it makes on browser and vendor
  objects, in the order it makes them.

  Conventions of the embedding:
  \<^item> a JavaScript number is a \<open>real\<close>: rounding and \<open>NaN\<close> are not modelled;
  \<^item> a JavaScript string is a \<open>string\<close>, one \<open>char\<close> per code unit below 256 (this
    covers the Icelandic texts of the component);
  \<^item> a browser or vendor object is a handle, a natural number that stands for its
    identity;
  \<^item> \<open>null\<close> and \<open>undefined\<close> are \<open>None\<close>;
  \<^item> a value the handler reads from its environment (\<open>Date.now()\<close>,
    \<open>ctx.currentTime\<close>, a freshly created node) is an argument of the function;
  \<^item> a state setter takes effect at once, in call order.
\<close>

subsection \<open>Data\<close>

text \<open>
  Modelled from the spec: the enum \<open>ConnectionState\<close> is declared in \<open>types.ts\<close>, which
  is not among the sources at hand. The spec names its four members, and they are the
  four members \<open>App.tsx\<close> refers to.
\<close>

datatype ConnectionState = DISCONNECTED | CONNECTING | CONNECTED | ERROR

text \<open>The tag of a log entry: the union type \<open>'user' | 'model' | 'system'\<close>.\<close>

datatype LogType = user | model | system

text \<open>
  \<open>LogMessage\<close>. The fields \<open>type\<close> and \<open>text\<close> of the source are \<open>log_type\<close> and
  \<open>log_text\<close> here; \<open>timestamp\<close> is a reading of \<open>Date.now()\<close>, in milliseconds.
\<close>

record LogMessage =
  log_type :: LogType
  log_text :: string
  timestamp :: int

type_synonym AudioContext = nat
type_synonym MediaStreamTrack = nat
type_synonym ScriptProcessorNode = nat
type_synonym GainNode = nat
type_synonym AudioBufferSourceNode = nat
type_synonym Session = nat

record MediaStream =
  getTracks :: "MediaStreamTrack list"

text \<open>An \<open>AudioBuffer\<close>, of which the component reads the \<open>duration\<close> only.\<close>

record AudioBuffer =
  duration :: real

text \<open>
  The vendor's \<open>Blob\<close>: base64 data with a MIME type, both optional. It is the
  \<open>inlineData\<close> of a message part and the \<open>media\<close> of a realtime input.
\<close>

record Blob =
  data :: "string option"
  mimeType :: "string option"

record Part =
  inlineData :: "Blob option"

text \<open>A model turn; its list of parts is optional.\<close>

record Content =
  parts :: "Part list option"

text \<open>
  \<open>turnComplete\<close> and \<open>interrupted\<close> are optional booleans read for their truthiness
  only: absent is \<open>False\<close>.
\<close>

record ServerContent =
  modelTurn :: "Content option"
  turnComplete :: bool
  interrupted :: bool

record LiveServerMessage =
  serverContent :: "ServerContent option"

record File =
  file_type :: string

text \<open>The argument of \<open>session.sendRealtimeInput\<close>: \<open>{media: blob}\<close> or
  \<open>{content: {role: 'user', parts: [{text}]}}\<close>.\<close>

datatype RealtimeInput = Media Blob | UserText string

text \<open>
  The exceptions that end the message handler early: the \<open>TypeError\<close> of reading a
  property of \<open>undefined\<close> or of connecting to \<open>null\<close>, and a failure to decode the
  audio.
\<close>

datatype JsError = TypeError | DecodeError

text \<open>
  How far a run of the message handler has come: it has returned, it has thrown, or it
  is suspended at \<open>await decodeAudioData(...)\<close>, holding its local \<open>ctx\<close> and
  \<open>base64Audio\<close>.
\<close>

datatype Progress = Returned | Thrown JsError | Awaiting AudioContext string

text \<open>The calls a handler makes on objects outside the component.\<close>

datatype Effect =
    ConsoleError
  | TrackStop MediaStreamTrack
  | ContextClose AudioContext
  | SourceConnect AudioBufferSourceNode GainNode
  | SourceStart AudioBufferSourceNode AudioBuffer real
  | SourceStop AudioBufferSourceNode
  | LiveConnect
  | SendRealtimeInput Session RealtimeInput
  | ReadAsDataURL File
  | FileInputReset
  | FileInputClick

text \<open>
  The state of the component. \<open>sourcesRef\<close> is a JavaScript \<open>Set\<close>: the list holds its
  members in insertion order, which is the order \<open>forEach\<close> visits them in.
\<close>

record AppState =
  connectionState :: ConnectionState
  logs :: "LogMessage list"
  volume :: real
  textInput :: string
  inputAudioContextRef :: "AudioContext option"
  outputAudioContextRef :: "AudioContext option"
  mediaStreamRef :: "MediaStream option"
  scriptProcessorRef :: "ScriptProcessorNode option"
  outputNodeRef :: "GainNode option"
  nextStartTimeRef :: real
  sourcesRef :: "AudioBufferSourceNode list"
  sessionRef :: "Session option"

text \<open>The state at the first render: the arguments of \<open>useState\<close> and \<open>useRef\<close>.\<close>

definition initial :: AppState where
  "initial = \<lparr>connectionState = DISCONNECTED, logs = [], volume = 0, textInput = [],
     inputAudioContextRef = None, outputAudioContextRef = None, mediaStreamRef = None,
     scriptProcessorRef = None, outputNodeRef = None, nextStartTimeRef = 0,
     sourcesRef = [], sessionRef = None\<rparr>"

subsection \<open>The log and the teardown\<close>

text \<open>\<open>addLog(type, text)\<close>; \<open>now\<close> is what \<open>Date.now()\<close> returns.\<close>

definition addLog :: "LogType \<Rightarrow> string \<Rightarrow> int \<Rightarrow> AppState \<Rightarrow> AppState" where
  "addLog ty txt now s =
     s\<lparr>logs := logs s @ [\<lparr>log_type = ty, log_text = txt, timestamp = now\<rparr>]\<rparr>"

text \<open>
  \<open>cleanup()\<close>. Each \<open>source.stop()\<close> is tried inside \<open>try/catch\<close>, so the loop always
  visits every source.
\<close>

definition cleanup :: "AppState \<Rightarrow> AppState \<times> Effect list" where
  "cleanup s =
     (let stopTracks = (case mediaStreamRef s of None \<Rightarrow> [] | Some stream \<Rightarrow> map TrackStop (getTracks stream));
          closeInput = (case inputAudioContextRef s of None \<Rightarrow> [] | Some ctx \<Rightarrow> [ContextClose ctx]);
          closeOutput = (case outputAudioContextRef s of None \<Rightarrow> [] | Some ctx \<Rightarrow> [ContextClose ctx]);
          stopSources = map SourceStop (sourcesRef s)
      in (s\<lparr>sessionRef := None, mediaStreamRef := None, inputAudioContextRef := None,
            outputAudioContextRef := None, sourcesRef := [], scriptProcessorRef := None,
            outputNodeRef := None, nextStartTimeRef := 0, volume := 0, textInput := []\<rparr>,
          stopTracks @ closeInput @ closeOutput @ stopSources))"

text \<open>A state in which \<open>cleanup\<close> has nothing left to release.\<close>

definition torn_down :: "AppState \<Rightarrow> bool" where
  "torn_down s \<longleftrightarrow>
     sessionRef s = None \<and> mediaStreamRef s = None \<and> inputAudioContextRef s = None \<and>
     outputAudioContextRef s = None \<and> scriptProcessorRef s = None \<and> outputNodeRef s = None \<and>
     sourcesRef s = [] \<and> nextStartTimeRef s = 0 \<and> volume s = 0 \<and> textInput s = []"

subsection \<open>The texts of the log\<close>

text \<open>The string literals passed to \<open>addLog\<close>, code unit by code unit.\<close>

definition text_initializing :: string where
  "text_initializing = ''Frumstilli hlj'' @ [CHR 0xF3, CHR 0xF0] @ ''b'' @ [CHR 0xFA] @ ''na'' @ [CHR 0xF0] @ ''...''"

definition text_connecting :: string where
  "text_connecting = ''Tengist Gemini Live...''"

definition text_connected :: string where
  "text_connected = ''Tenging komin! Byrja'' @ [CHR 0xF0] @ ''u a'' @ [CHR 0xF0] @ '' tala.''"

definition text_turn_complete :: string where
  "text_turn_complete = ''Svari loki'' @ [CHR 0xF0] @ ''.''"

definition text_interrupted :: string where
  "text_interrupted = ''Gripi'' @ [CHR 0xF0] @ '' fram '' @ [CHR 0xED] @ ''.''"

definition text_closed :: string where
  "text_closed = ''Tengingu loka'' @ [CHR 0xF0] @ ''.''"

definition text_error :: string where
  "text_error = ''Villa kom upp. Sko'' @ [CHR 0xF0] @ ''a'' @ [CHR 0xF0] @ ''u console.''"

definition text_connect_failed :: string where
  "text_connect_failed = ''Tenging mist'' @ [CHR 0xF3] @ ''kst.''"

definition text_user_ended :: string where
  "text_user_ended = ''Notandi enda'' @ [CHR 0xF0] @ ''i setu.''"

definition text_sending_image :: string where
  "text_sending_image = ''Sendi mynd...''"

definition text_image_sent :: string where
  "text_image_sent = ''Sendi mynd til greiningar''"

subsection \<open>Connecting\<close>

text \<open>
  \<open>handleConnect\<close> is an \<open>async\<close> function with two \<open>await\<close>s. It is embedded as the
  segments that run without interruption: up to \<open>await getUserMedia\<close>, from there to
  \<open>await sessionPromise\<close>, the assignment after it, and the \<open>catch\<close> block, which runs
  when either promise rejects.
\<close>

definition handleConnect_begin ::
  "AudioContext \<Rightarrow> AudioContext \<Rightarrow> GainNode \<Rightarrow> int \<Rightarrow> AppState \<Rightarrow> AppState \<times> Effect list" where
  "handleConnect_begin inputCtx outputCtx outputNode now s =
     ((addLog system text_initializing now (s\<lparr>connectionState := CONNECTING\<rparr>))
        \<lparr>inputAudioContextRef := Some inputCtx, outputAudioContextRef := Some outputCtx,
         outputNodeRef := Some outputNode\<rparr>, [])"

definition handleConnect_stream :: "MediaStream \<Rightarrow> int \<Rightarrow> AppState \<Rightarrow> AppState \<times> Effect list" where
  "handleConnect_stream stream now s =
     (addLog system text_connecting now (s\<lparr>mediaStreamRef := Some stream\<rparr>), [LiveConnect])"

definition handleConnect_session :: "Session \<Rightarrow> AppState \<Rightarrow> AppState \<times> Effect list" where
  "handleConnect_session session s = (s\<lparr>sessionRef := Some session\<rparr>, [])"

definition handleConnect_catch :: "int \<Rightarrow> AppState \<Rightarrow> AppState \<times> Effect list" where
  "handleConnect_catch now s =
     (let (s', calls) = cleanup ((addLog system text_connect_failed now s)\<lparr>connectionState := ERROR\<rparr>)
      in (s', ConsoleError # calls))"

subsection \<open>The callbacks of the live session\<close>

text \<open>\<open>onopen\<close>; \<open>processor\<close> is the node \<open>createScriptProcessor(4096, 1, 1)\<close> returns.\<close>

definition onopen :: "ScriptProcessorNode \<Rightarrow> int \<Rightarrow> AppState \<Rightarrow> AppState \<times> Effect list" where
  "onopen processor now s =
     ((addLog system text_connected now s)
        \<lparr>connectionState := CONNECTED, scriptProcessorRef := Some processor\<rparr>, [])"

text \<open>
  The volume meter of \<open>onaudioprocess\<close>: the loop \<open>for (i = 0; i < inputData.length; i++)
  sum += inputData[i] * inputData[i]\<close> from \<open>sum = 0\<close>, then
  \<open>Math.sqrt(sum / inputData.length)\<close>. A frame of the script processor has 4096
  samples; on an empty frame JavaScript would divide zero by zero, which the reals of
  this embedding do not show, so the properties below are stated for frames that are
  not empty.
\<close>

definition rms :: "real list \<Rightarrow> real" where
  "rms inputData = sqrt (fold (\<lambda>x sum. sum + x * x) inputData 0 / real (length inputData))"

text \<open>
  \<open>onaudioprocess\<close>. \<open>createBlob\<close> belongs to \<open>utils/audio\<close>, which is not among the
  sources at hand: it is a parameter. \<open>session\<close> is the session that \<open>sessionPromise\<close>
  resolves to.
\<close>

definition onaudioprocess ::
  "(real list \<Rightarrow> Blob) \<Rightarrow> Session \<Rightarrow> real list \<Rightarrow> AppState \<Rightarrow> AppState \<times> Effect list" where
  "onaudioprocess createBlob session inputData s =
     (let pcmBlob = createBlob inputData
      in (s\<lparr>volume := max (rms inputData * 5) (volume s * 0.9)\<rparr>,
          [SendRealtimeInput session (Media pcmBlob)]))"

text \<open>
  \<open>message.serverContent?.modelTurn?.parts[0]?.inlineData?.data\<close>. There is no \<open>?.\<close>
  between \<open>parts\<close> and \<open>[0]\<close>: on a turn without a list of parts the read throws a
  \<open>TypeError\<close>.
\<close>

definition base64Audio :: "LiveServerMessage \<Rightarrow> JsError + string option" where
  "base64Audio message =
     (case serverContent message of
        None \<Rightarrow> Inr None
      | Some sc \<Rightarrow>
          (case modelTurn sc of
             None \<Rightarrow> Inr None
           | Some turn \<Rightarrow>
               (case parts turn of
                  None \<Rightarrow> Inl TypeError
                | Some ps \<Rightarrow>
                    (case ps of
                       [] \<Rightarrow> Inr None
                     | part # _ \<Rightarrow>
                         (case inlineData part of None \<Rightarrow> Inr None | Some blob \<Rightarrow> Inr (data blob))))))"

text \<open>\<open>Set.prototype.add\<close> on the insertion-ordered list.\<close>

definition Set_add :: "'a \<Rightarrow> 'a list \<Rightarrow> 'a list" where
  "Set_add x xs = (if x \<in> set xs then xs else xs @ [x])"

text \<open>
  The condition \<open>base64Audio && outputAudioContextRef.current && outputNodeRef.current\<close>
  of the first block of \<open>onmessage\<close> (``Handle Audio Output''). An empty string is
  falsy, like \<open>undefined\<close>, and so are the two references when they are \<open>null\<close>. When
  the condition holds, the result is the context and the text that the block goes on
  with.
\<close>

definition audio_to_play :: "string option \<Rightarrow> AppState \<Rightarrow> (AudioContext \<times> string) option" where
  "audio_to_play audio s =
     (case audio of
        None \<Rightarrow> None
      | Some b64 \<Rightarrow>
          if b64 = [] then None
          else
            (case outputAudioContextRef s of
               None \<Rightarrow> None
             | Some ctx \<Rightarrow>
                 (case outputNodeRef s of None \<Rightarrow> None | Some outputNode \<Rightarrow> Some (ctx, b64))))"

text \<open>The truthiness of \<open>message.serverContent?.turnComplete\<close> and of
  \<open>message.serverContent?.interrupted\<close>.\<close>

definition has_turnComplete :: "LiveServerMessage \<Rightarrow> bool" where
  "has_turnComplete message = (case serverContent message of None \<Rightarrow> False | Some sc \<Rightarrow> turnComplete sc)"

definition has_interrupted :: "LiveServerMessage \<Rightarrow> bool" where
  "has_interrupted message = (case serverContent message of None \<Rightarrow> False | Some sc \<Rightarrow> interrupted sc)"

text \<open>The second block (``Handle Turn Complete'').\<close>

definition handleTurnComplete :: "int \<Rightarrow> LiveServerMessage \<Rightarrow> AppState \<Rightarrow> AppState" where
  "handleTurnComplete now message s =
     (if has_turnComplete message
      then (addLog system text_turn_complete now s)\<lparr>volume := 0\<rparr>
      else s)"

text \<open>The third block (``Handle Interruption''). The sources in the set have all been
  started, so \<open>stop()\<close> does not throw on them.\<close>

definition handleInterruption :: "int \<Rightarrow> LiveServerMessage \<Rightarrow> AppState \<Rightarrow> AppState \<times> Effect list" where
  "handleInterruption now message s =
     (if has_interrupted message
      then ((addLog system text_interrupted now s)\<lparr>sourcesRef := [], nextStartTimeRef := 0\<rparr>,
            map SourceStop (sourcesRef s))
      else (s, []))"

text \<open>The second and the third block in turn: the end of the handler. \<open>now1\<close> and
  \<open>now2\<close> are the readings of \<open>Date.now()\<close> for the two log entries.\<close>

definition onmessage_finish :: "int \<Rightarrow> int \<Rightarrow> LiveServerMessage \<Rightarrow> AppState \<Rightarrow> AppState \<times> Effect list" where
  "onmessage_finish now1 now2 message s =
     handleInterruption now2 message (handleTurnComplete now1 message s)"

text \<open>
  \<open>onmessage\<close> is an \<open>async\<close> function with one \<open>await\<close>, inside its first block. Like
  \<open>handleConnect\<close> it is embedded as the segments that run without interruption.

  The first segment runs when the message arrives. Reading \<open>base64Audio\<close> may throw.
  When the condition of the first block fails, the handler runs its other two blocks
  and returns. When it holds, the handler sets the scalar to
  \<open>Math.max(nextStartTimeRef.current, ctx.currentTime)\<close>, calls \<open>decodeAudioData\<close> and
  is suspended; \<open>currentTime\<close> is \<open>ctx.currentTime\<close>.
\<close>

definition onmessage_begin ::
  "real \<Rightarrow> int \<Rightarrow> int \<Rightarrow> LiveServerMessage \<Rightarrow> AppState \<Rightarrow> Progress \<times> AppState \<times> Effect list" where
  "onmessage_begin currentTime now1 now2 message s =
     (case base64Audio message of
        Inl err \<Rightarrow> (Thrown err, s, [])
      | Inr audio \<Rightarrow>
          (case audio_to_play audio s of
             None \<Rightarrow> (Returned, onmessage_finish now1 now2 message s)
           | Some (ctx, b64) \<Rightarrow>
               (Awaiting ctx b64,
                s\<lparr>nextStartTimeRef := max (nextStartTimeRef s) currentTime\<rparr>, [])))"

text \<open>
  The second segment runs when the awaited promise settles; other handlers may have run
  since the first segment, and \<open>s\<close> is the state they have left. \<open>decodeAudioData\<close>
  stands for \<open>decodeAudioData(decode(base64Audio), ctx, 24000, 1)\<close> as a function of the
  base64 text: \<open>decode\<close> and \<open>decodeAudioData\<close> belong to \<open>utils/audio\<close> and are a
  parameter here, with \<open>None\<close> for a decoding that throws or rejects; the handler then
  ends at the \<open>await\<close>. \<open>source\<close> is the node \<open>ctx.createBufferSource()\<close> returns.
  \<open>source.connect(outputNodeRef.current)\<close> reads the reference again and throws a
  \<open>TypeError\<close> when it is \<open>null\<close> by now; a node handle carries no context, and
  connecting to any node succeeds. \<open>source.start\<close> reads the scalar again.
\<close>

definition onmessage_resume ::
  "(string \<Rightarrow> AudioBuffer option) \<Rightarrow> AudioBufferSourceNode \<Rightarrow> int \<Rightarrow> int \<Rightarrow> LiveServerMessage
     \<Rightarrow> AudioContext \<Rightarrow> string \<Rightarrow> AppState \<Rightarrow> Progress \<times> AppState \<times> Effect list" where
  "onmessage_resume decodeAudioData source now1 now2 message ctx b64 s =
     (case decodeAudioData b64 of
        None \<Rightarrow> (Thrown DecodeError, s, [])
      | Some audioBuffer \<Rightarrow>
          (case outputNodeRef s of
             None \<Rightarrow> (Thrown TypeError, s, [])
           | Some outputNode \<Rightarrow>
               let start = nextStartTimeRef s;
                   s1 = s\<lparr>nextStartTimeRef := nextStartTimeRef s + duration audioBuffer\<rparr>;
                   s2 = s1\<lparr>sourcesRef := Set_add source (sourcesRef s1)\<rparr>;
                   s3 = s2\<lparr>volume := 0.5\<rparr>;
                   (s4, calls) = onmessage_finish now1 now2 message s3
               in (Returned, s4,
                   [SourceConnect source outputNode, SourceStart source audioBuffer start] @ calls)))"

text \<open>The listener of a source's \<open>ended\<close> event: \<open>sourcesRef.current.delete(source)\<close>.\<close>

definition source_ended :: "AudioBufferSourceNode \<Rightarrow> AppState \<Rightarrow> AppState \<times> Effect list" where
  "source_ended source s = (s\<lparr>sourcesRef := removeAll source (sourcesRef s)\<rparr>, [])"

definition onclose :: "int \<Rightarrow> AppState \<Rightarrow> AppState \<times> Effect list" where
  "onclose now s = cleanup ((addLog system text_closed now s)\<lparr>connectionState := DISCONNECTED\<rparr>)"

definition onerror :: "int \<Rightarrow> AppState \<Rightarrow> AppState \<times> Effect list" where
  "onerror now s =
     (let (s', calls) = cleanup ((addLog system text_error now s)\<lparr>connectionState := ERROR\<rparr>)
      in (s', ConsoleError # calls))"

subsection \<open>The handlers of the user interface\<close>

definition handleDisconnect :: "int \<Rightarrow> AppState \<Rightarrow> AppState \<times> Effect list" where
  "handleDisconnect now s =
     (let (s', calls) = cleanup s
      in (addLog system text_user_ended now (s'\<lparr>connectionState := DISCONNECTED\<rparr>), calls))"

text \<open>
  \<open>String.prototype.trim\<close> on code units below 256: tab, line feed, vertical tab, form
  feed, carriage return, space and no-break space are white space.
\<close>

definition isWhiteSpace :: "char \<Rightarrow> bool" where
  "isWhiteSpace c \<longleftrightarrow> c \<in> {CHR 0x09, CHR 0x0A, CHR 0x0B, CHR 0x0C, CHR 0x0D, CHR 0x20, CHR 0xA0}"

definition trim :: "string \<Rightarrow> string" where
  "trim str = rev (dropWhile isWhiteSpace (rev (dropWhile isWhiteSpace str)))"

definition handleSendText :: "int \<Rightarrow> AppState \<Rightarrow> AppState \<times> Effect list" where
  "handleSendText now s =
     (if trim (textInput s) = [] then (s, [])
      else
        (case sessionRef s of
           None \<Rightarrow> (s, [])
         | Some session \<Rightarrow>
             let text = trim (textInput s)
             in ((addLog user text now s)\<lparr>textInput := []\<rparr>,
                 [SendRealtimeInput session (UserText text)])))"

definition handleKeyDown :: "string \<Rightarrow> int \<Rightarrow> AppState \<Rightarrow> AppState \<times> Effect list" where
  "handleKeyDown key now s = (if key = ''Enter'' then handleSendText now s else (s, []))"

text \<open>The \<open>onChange\<close> of the text field: \<open>setTextInput(e.target.value)\<close>.\<close>

definition textInput_onChange :: "string \<Rightarrow> AppState \<Rightarrow> AppState \<times> Effect list" where
  "textInput_onChange v s = (s\<lparr>textInput := v\<rparr>, [])"

text \<open>
  \<open>fileInputRef\<close> is a reference that React sets to the file input while that input
  is rendered. The handlers only read it: \<open>fileInput\<close> says whether it is set.
  \<open>triggerFileUpload\<close> is \<open>fileInputRef.current?.click()\<close>.
\<close>

definition triggerFileUpload :: "bool \<Rightarrow> AppState \<Rightarrow> AppState \<times> Effect list" where
  "triggerFileUpload fileInput s = (s, if fileInput then [FileInputClick] else [])"

text \<open>
  \<open>handleImageUpload\<close>, up to \<open>reader.readAsDataURL(file)\<close>. Nothing in its \<open>try\<close> block
  throws on a fresh reader and a file, so the \<open>catch\<close> block has no branch here.
\<close>

definition handleImageUpload :: "File option \<Rightarrow> int \<Rightarrow> AppState \<Rightarrow> AppState \<times> Effect list" where
  "handleImageUpload file now s =
     (case file of
        None \<Rightarrow> (s, [])
      | Some f \<Rightarrow>
          (case sessionRef s of
             None \<Rightarrow> (s, [])
           | Some session \<Rightarrow> (addLog system text_sending_image now s, [ReadAsDataURL f])))"

text \<open>\<open>result.split(',')[1]\<close>: the text between the first comma and the second, and
  \<open>undefined\<close> when there is no comma.\<close>

definition split_comma_1 :: "string \<Rightarrow> string option" where
  "split_comma_1 result =
     (case dropWhile (\<lambda>c. c \<noteq> CHR '','') result of
        [] \<Rightarrow> None
      | _ # rest \<Rightarrow> Some (takeWhile (\<lambda>c. c \<noteq> CHR '','') rest))"

text \<open>
  \<open>reader.onload\<close>. When the session reference has been cleared in the meantime,
  \<open>sessionRef.current.sendRealtimeInput\<close> throws a \<open>TypeError\<close> and the listener stops
  there, with nothing changed.
\<close>

definition reader_onload :: "bool \<Rightarrow> File \<Rightarrow> string \<Rightarrow> int \<Rightarrow> AppState \<Rightarrow> AppState \<times> Effect list" where
  "reader_onload fileInput file result now s =
     (let base64Data = split_comma_1 result
      in (case sessionRef s of
            None \<Rightarrow> (s, [])
          | Some session \<Rightarrow>
              (addLog user text_image_sent now s,
               [SendRealtimeInput session (Media \<lparr>data = base64Data, mimeType = Some (file_type file)\<rparr>)] @
               (if fileInput then [FileInputReset] else []))))"

subsection \<open>All handlers together\<close>

text \<open>One constructor for every piece of code of the component that can run, with the
  values it reads from its environment.\<close>

datatype Event =
    HandleConnectBegin AudioContext AudioContext GainNode int
  | HandleConnectStream MediaStream int
  | HandleConnectSession Session
  | HandleConnectCatch int
  | OnOpen ScriptProcessorNode int
  | OnAudioProcess Session "real list"
  | OnMessage real int int LiveServerMessage
  | OnMessageResume AudioBufferSourceNode int int LiveServerMessage AudioContext string
  | SourceEnded AudioBufferSourceNode
  | OnClose int
  | OnError int
  | HandleDisconnect int
  | HandleImageUpload "File option" int
  | ReaderOnload bool File string int
  | HandleSendText int
  | HandleKeyDown string int
  | TextInputOnChange string
  | TriggerFileUpload bool

fun step ::
  "(real list \<Rightarrow> Blob) \<Rightarrow> (string \<Rightarrow> AudioBuffer option) \<Rightarrow> Event \<Rightarrow> AppState \<Rightarrow> AppState \<times> Effect list" where
  "step createBlob decodeAudioData (HandleConnectBegin inputCtx outputCtx outputNode now) s =
     handleConnect_begin inputCtx outputCtx outputNode now s"
| "step createBlob decodeAudioData (HandleConnectStream stream now) s = handleConnect_stream stream now s"
| "step createBlob decodeAudioData (HandleConnectSession session) s = handleConnect_session session s"
| "step createBlob decodeAudioData (HandleConnectCatch now) s = handleConnect_catch now s"
| "step createBlob decodeAudioData (OnOpen processor now) s = onopen processor now s"
| "step createBlob decodeAudioData (OnAudioProcess session inputData) s =
     onaudioprocess createBlob session inputData s"
| "step createBlob decodeAudioData (OnMessage currentTime now1 now2 message) s =
     snd (onmessage_begin currentTime now1 now2 message s)"
| "step createBlob decodeAudioData (OnMessageResume source now1 now2 message ctx b64) s =
     snd (onmessage_resume decodeAudioData source now1 now2 message ctx b64 s)"
| "step createBlob decodeAudioData (SourceEnded source) s = source_ended source s"
| "step createBlob decodeAudioData (OnClose now) s = onclose now s"
| "step createBlob decodeAudioData (OnError now) s = onerror now s"
| "step createBlob decodeAudioData (HandleDisconnect now) s = handleDisconnect now s"
| "step createBlob decodeAudioData (HandleImageUpload file now) s = handleImageUpload file now s"
| "step createBlob decodeAudioData (ReaderOnload fileInput file result now) s =
     reader_onload fileInput file result now s"
| "step createBlob decodeAudioData (HandleSendText now) s = handleSendText now s"
| "step createBlob decodeAudioData (HandleKeyDown key now) s = handleKeyDown key now s"
| "step createBlob decodeAudioData (TextInputOnChange v) s = textInput_onChange v s"
| "step createBlob decodeAudioData (TriggerFileUpload fileInput) s = triggerFileUpload fileInput s"

text \<open>A run of the component: the handlers of a list of events, one after the other.\<close>

fun run ::
  "(real list \<Rightarrow> Blob) \<Rightarrow> (string \<Rightarrow> AudioBuffer option) \<Rightarrow> Event list \<Rightarrow> AppState \<Rightarrow> AppState \<times> Effect list" where
  "run createBlob decodeAudioData [] s = (s, [])"
| "run createBlob decodeAudioData (e # es) s =
     (let (s1, calls1) = step createBlob decodeAudioData e s;
          (s2, calls2) = run createBlob decodeAudioData es s1
      in (s2, calls1 @ calls2))"

subsection \<open>Reading a run\<close>

text \<open>The buffers a list of calls starts, in order: for each \<open>source.start(t)\<close> the
  time \<open>t\<close> and the time at which the buffer ends, \<open>t\<close> plus its duration.\<close>

fun started :: "Effect list \<Rightarrow> (real \<times> real) list" where
  "started [] = []"
| "started (SourceStart source buffer start # calls) = (start, start + duration buffer) # started calls"
| "started (_ # calls) = started calls"

text \<open>An event that is the arrival of a message with audio data, and the
  \<open>ctx.currentTime\<close> its handler reads.\<close>

fun audio_arrival :: "Event \<Rightarrow> bool" where
  "audio_arrival (OnMessage currentTime now1 now2 message) =
     (case base64Audio message of
        Inl err \<Rightarrow> False
      | Inr audio \<Rightarrow> (case audio of None \<Rightarrow> False | Some b64 \<Rightarrow> b64 \<noteq> []))"
| "audio_arrival _ = False"

fun arrival_time :: "Event \<Rightarrow> real" where
  "arrival_time (OnMessage currentTime now1 now2 message) = currentTime"
| "arrival_time _ = 0"

text \<open>
  An event between two scheduled buffers that is neither an interruption nor a
  teardown and schedules no buffer itself. Such are all events but these: the arrival
  of a message with the interrupted flag and no audio data (read without error), the
  resumption of a message handler, and the handlers that run \<open>cleanup\<close>.
\<close>

fun quiet :: "Event \<Rightarrow> bool" where
  "quiet (OnMessage currentTime now1 now2 message) =
     (audio_arrival (OnMessage currentTime now1 now2 message) \<or> \<not> has_interrupted message \<or>
      base64Audio message = Inl TypeError)"
| "quiet (OnMessageResume source now1 now2 message ctx b64) = False"
| "quiet (OnClose now) = False"
| "quiet (OnError now) = False"
| "quiet (HandleDisconnect now) = False"
| "quiet (HandleConnectCatch now) = False"
| "quiet _ = True"

text \<open>The latest of a time \<open>t\<close> and the arrival times of the audio messages among
  the events.\<close>

fun latest :: "Event list \<Rightarrow> real \<Rightarrow> real" where
  "latest [] t = t"
| "latest (e # es) t = latest es (if audio_arrival e then max t (arrival_time e) else t)"

text \<open>The callbacks \<open>onopen\<close>, \<open>onclose\<close> and \<open>onerror\<close> of the session.\<close>

fun session_callback :: "Event \<Rightarrow> bool" where
  "session_callback (OnOpen processor now) = True"
| "session_callback (OnClose now) = True"
| "session_callback (OnError now) = True"
| "session_callback _ = False"

text \<open>The segments of the click handlers \<open>handleConnect\<close> and \<open>handleDisconnect\<close> that
  call \<open>setConnectionState\<close>: the entry of \<open>handleConnect\<close>, its \<open>catch\<close> block, and
  \<open>handleDisconnect\<close>.\<close>

fun connect_or_disconnect :: "Event \<Rightarrow> bool" where
  "connect_or_disconnect (HandleConnectBegin inputCtx outputCtx outputNode now) = True"
| "connect_or_disconnect (HandleConnectCatch now) = True"
| "connect_or_disconnect (HandleDisconnect now) = True"
| "connect_or_disconnect _ = False"

subsection \<open>Worked inputs\<close>

text \<open>
  Concrete values for the examples below: stand-ins for the two helpers of
  \<open>utils/audio\<close> (a decoder that accepts the base64 texts whose length is a multiple
  of four and gives one second of audio per character, an encoder with a fixed result),
  a message that carries audio, a message that carries the interrupted flag alone, one
  that carries it with a turn that has no parts, and a state in the middle of a session.
\<close>

definition example_decodeAudioData :: "string \<Rightarrow> AudioBuffer option" where
  "example_decodeAudioData b64 =
     (if length b64 mod 4 = 0 then Some \<lparr>duration = real (length b64)\<rparr> else None)"

definition example_createBlob :: "real list \<Rightarrow> Blob" where
  "example_createBlob inputData = \<lparr>data = Some ''AAAA'', mimeType = Some ''audio/pcm;rate=16000''\<rparr>"

definition audio_message :: "string \<Rightarrow> bool \<Rightarrow> LiveServerMessage" where
  "audio_message b64 intr =
     \<lparr>serverContent = Some \<lparr>modelTurn = Some \<lparr>parts = Some [\<lparr>inlineData = Some \<lparr>data = Some b64, mimeType = Some ''audio/pcm''\<rparr>\<rparr>]\<rparr>,
        turnComplete = False, interrupted = intr\<rparr>\<rparr>"

definition interrupted_message :: LiveServerMessage where
  "interrupted_message = \<lparr>serverContent = Some \<lparr>modelTurn = None, turnComplete = False, interrupted = True\<rparr>\<rparr>"


definition example_live :: AppState where
  "example_live = \<lparr>connectionState = CONNECTED,
     logs = [\<lparr>log_type = system, log_text = text_initializing, timestamp = 1000\<rparr>,
             \<lparr>log_type = system, log_text = text_connecting, timestamp = 1001\<rparr>,
             \<lparr>log_type = system, log_text = text_connected, timestamp = 1002\<rparr>],
     volume = 0, textInput = [],
     inputAudioContextRef = Some 1, outputAudioContextRef = Some 2,
     mediaStreamRef = Some \<lparr>getTracks = [3]\<rparr>, scriptProcessorRef = Some 4,
     outputNodeRef = Some 5, nextStartTimeRef = 0, sourcesRef = [], sessionRef = Some 6\<rparr>"

section \<open>Properties\<close>

lemma fst_cleanup:
  "fst (cleanup s) = s\<lparr>sessionRef := None, mediaStreamRef := None, inputAudioContextRef := None,
      outputAudioContextRef := None, sourcesRef := [], scriptProcessorRef := None,
      outputNodeRef := None, nextStartTimeRef := 0, volume := 0, textInput := []\<rparr>"
  by (simp add: cleanup_def Let_def)

lemma snd_cleanup:
  "snd (cleanup s) =
     (case mediaStreamRef s of None \<Rightarrow> [] | Some stream \<Rightarrow> map TrackStop (getTracks stream)) @
     (case inputAudioContextRef s of None \<Rightarrow> [] | Some ctx \<Rightarrow> [ContextClose ctx]) @
     (case outputAudioContextRef s of None \<Rightarrow> [] | Some ctx \<Rightarrow> [ContextClose ctx]) @
     map SourceStop (sourcesRef s)"
  by (simp add: cleanup_def Let_def)

lemma torn_down_cleanup: "torn_down (fst (cleanup s))"
  by (simp add: fst_cleanup torn_down_def)

lemma cleanup_torn_down: "torn_down s \<Longrightarrow> cleanup s = (s, [])"
  by (simp add: cleanup_def torn_down_def Let_def)

text \<open>
  C9. \<open>cleanup\<close> is idempotent. A second run in a row leaves the state of the first run
  as it is and makes no call at all; and from a state that is already torn down (no
  session, stream, contexts, processor or output node, no source, next start time and
  volume zero, empty text input) \<open>cleanup\<close> changes nothing and makes no call.
\<close>

theorem cleanup_idempotent:
  "cleanup (fst (cleanup s)) = (fst (cleanup s), []) \<and>
   (torn_down s \<longrightarrow> cleanup s = (s, []))"
  using cleanup_torn_down [OF torn_down_cleanup] cleanup_torn_down by blast

theorem cleanup_idempotent_witness:
  "torn_down initial \<and> cleanup initial = (initial, []) \<and>
   cleanup (fst (cleanup example_live)) = (fst (cleanup example_live), [])"
  using cleanup_idempotent [of initial] cleanup_idempotent [of example_live]
  by (simp add: torn_down_def initial_def)

subsection \<open>Playback scheduling\<close>

text \<open>The state of the worked examples is the one a successful connection leads to.\<close>

lemma example_live_reached:
  "fst (run createBlob decodeAudioData
     [HandleConnectBegin 1 2 5 1000, HandleConnectStream \<lparr>getTracks = [3]\<rparr> 1001, OnOpen 4 1002,
      HandleConnectSession 6] initial) = example_live"
  by (simp add: initial_def example_live_def handleConnect_begin_def handleConnect_stream_def
      onopen_def handleConnect_session_def addLog_def)

lemma started_append: "started (xs @ ys) = started xs @ started ys"
  by (induction xs rule: started.induct) simp_all

lemma started_map_SourceStop: "started (map SourceStop xs) = []"
  by (induction xs) simp_all

lemma onmessage_begin_awaits:
  assumes "base64Audio message = Inr (Some b64)" and "b64 \<noteq> []"
    and "outputAudioContextRef s = Some ctx" and "outputNodeRef s = Some outputNode"
  shows "onmessage_begin currentTime now1 now2 message s =
     (Awaiting ctx b64, s\<lparr>nextStartTimeRef := max (nextStartTimeRef s) currentTime\<rparr>, [])"
  using assms by (simp add: onmessage_begin_def audio_to_play_def)

lemma onmessage_begin_returns:
  assumes "base64Audio message = Inr audio" and "audio_to_play audio s = None"
  shows "onmessage_begin currentTime now1 now2 message s =
     (Returned, onmessage_finish now1 now2 message s)"
  using assms by (simp add: onmessage_begin_def)

lemma audio_to_play_None:
  "audio_to_play audio s = None \<longleftrightarrow>
     audio = None \<or> audio = Some [] \<or> outputAudioContextRef s = None \<or> outputNodeRef s = None"
  by (auto simp add: audio_to_play_def split: option.splits)

lemma fst_onmessage_finish:
  "fst (onmessage_finish now1 now2 message s) =
     (if has_interrupted message
      then (addLog system text_interrupted now2 (handleTurnComplete now1 message s))
             \<lparr>sourcesRef := [], nextStartTimeRef := 0\<rparr>
      else handleTurnComplete now1 message s)"
  by (simp add: onmessage_finish_def handleInterruption_def)

lemma nextStartTimeRef_handleTurnComplete [simp]:
  "nextStartTimeRef (handleTurnComplete now message s) = nextStartTimeRef s"
  by (simp add: handleTurnComplete_def addLog_def)

lemma sourcesRef_handleTurnComplete [simp]:
  "sourcesRef (handleTurnComplete now message s) = sourcesRef s"
  by (simp add: handleTurnComplete_def addLog_def)

lemma outputNodeRef_handleTurnComplete [simp]:
  "outputNodeRef (handleTurnComplete now message s) = outputNodeRef s"
  by (simp add: handleTurnComplete_def addLog_def)

lemma outputAudioContextRef_handleTurnComplete [simp]:
  "outputAudioContextRef (handleTurnComplete now message s) = outputAudioContextRef s"
  by (simp add: handleTurnComplete_def addLog_def)

lemma snd_onmessage_finish:
  "snd (onmessage_finish now1 now2 message s) =
     (if has_interrupted message then map SourceStop (sourcesRef s) else [])"
  by (simp add: onmessage_finish_def handleInterruption_def)

lemma nextStartTimeRef_onmessage_finish:
  "nextStartTimeRef (fst (onmessage_finish now1 now2 message s)) =
     (if has_interrupted message then 0 else nextStartTimeRef s)"
  by (simp add: fst_onmessage_finish addLog_def)


lemma onmessage_resume_starts:
  assumes "decodeAudioData b64 = Some audioBuffer" and "outputNodeRef s = Some outputNode"
  shows "onmessage_resume decodeAudioData source now1 now2 message ctx b64 s =
     (Returned,
      fst (onmessage_finish now1 now2 message
        (s\<lparr>nextStartTimeRef := nextStartTimeRef s + duration audioBuffer,
           sourcesRef := Set_add source (sourcesRef s), volume := 0.5\<rparr>)),
      [SourceConnect source outputNode, SourceStart source audioBuffer (nextStartTimeRef s)] @
      snd (onmessage_finish now1 now2 message
        (s\<lparr>nextStartTimeRef := nextStartTimeRef s + duration audioBuffer,
           sourcesRef := Set_add source (sourcesRef s), volume := 0.5\<rparr>)))"
  using assms by (simp add: onmessage_resume_def Let_def split_beta)

text \<open>
  C1, as amended. An audio message that arrives while the output context and the output
  node are set makes the handler set the next-start-time scalar to the maximum of
  \<open>ctx.currentTime\<close> and the scalar, and wait for the decoding. When the handler
  resumes with the decoded buffer and the output node is still set, it starts the
  buffer at the value the scalar has at that moment, and the scalar becomes that start
  time plus the duration of the buffer; this is the value of the scalar when the
  handler ends, unless the same message carries the interrupted flag: then it is zero.
  When no other handler has run during the wait, the start time is the maximum of
  \<open>ctx.currentTime\<close> and the scalar at the arrival. An audio message that arrives
  while one of the two references is \<open>null\<close> starts no buffer: the handler runs its
  turn-complete and interruption blocks only, and the scalar stays as it is unless the
  message carries the interrupted flag. The next start time is the one field
  \<open>nextStartTimeRef\<close>.
\<close>

theorem onmessage_schedules_audio:
  "(base64Audio message = Inr (Some payload) \<and> payload \<noteq> [] \<and>
    outputAudioContextRef s = Some ctx \<and> outputNodeRef s = Some outputNode \<longrightarrow>
      onmessage_begin currentTime nowA nowB message s =
        (Awaiting ctx payload, s\<lparr>nextStartTimeRef := max currentTime (nextStartTimeRef s)\<rparr>, [])) \<and>
   (decodeAudioData payload = Some audioBuffer \<and> outputNodeRef s' = Some outputNode' \<longrightarrow>
      fst (onmessage_resume decodeAudioData source nowC nowD message ctx payload s') = Returned \<and>
      take 2 (snd (snd (onmessage_resume decodeAudioData source nowC nowD message ctx payload s'))) =
        [SourceConnect source outputNode', SourceStart source audioBuffer (nextStartTimeRef s')] \<and>
      nextStartTimeRef (fst (snd (onmessage_resume decodeAudioData source nowC nowD message ctx payload s'))) =
        (if has_interrupted message then 0 else nextStartTimeRef s' + duration audioBuffer)) \<and>
   (base64Audio message = Inr (Some payload) \<and> payload \<noteq> [] \<and>
    outputAudioContextRef s = Some ctx \<and> outputNodeRef s = Some outputNode \<and>
    decodeAudioData payload = Some audioBuffer \<longrightarrow>
      take 2 (snd (snd (onmessage_resume decodeAudioData source nowC nowD message ctx payload
          (fst (snd (onmessage_begin currentTime nowA nowB message s)))))) =
        [SourceConnect source outputNode,
         SourceStart source audioBuffer (max currentTime (nextStartTimeRef s))] \<and>
      nextStartTimeRef (fst (snd (onmessage_resume decodeAudioData source nowC nowD message ctx payload
          (fst (snd (onmessage_begin currentTime nowA nowB message s)))))) =
        (if has_interrupted message then 0
         else max currentTime (nextStartTimeRef s) + duration audioBuffer)) \<and>
   (base64Audio message = Inr audio \<and>
    (audio = None \<or> audio = Some [] \<or> outputAudioContextRef s = None \<or> outputNodeRef s = None) \<longrightarrow>
      onmessage_begin currentTime nowA nowB message s =
        (Returned, onmessage_finish nowA nowB message s) \<and>
      started (snd (snd (onmessage_begin currentTime nowA nowB message s))) = [] \<and>
      nextStartTimeRef (fst (snd (onmessage_begin currentTime nowA nowB message s))) =
        (if has_interrupted message then 0 else nextStartTimeRef s))"
  by (auto simp add: onmessage_begin_awaits onmessage_begin_returns audio_to_play_None
      onmessage_resume_starts nextStartTimeRef_onmessage_finish snd_onmessage_finish
      started_map_SourceStop max.commute)

theorem onmessage_schedules_audio_witness:
  "base64Audio (audio_message ''AAAA'' False) = Inr (Some ''AAAA'') \<and>
   outputAudioContextRef example_live = Some 2 \<and> outputNodeRef example_live = Some 5 \<and>
   onmessage_begin 7 1003 1004 (audio_message ''AAAA'' False) example_live =
     (Awaiting 2 ''AAAA'', example_live\<lparr>nextStartTimeRef := 7\<rparr>, []) \<and>
   example_decodeAudioData ''AAAA'' = Some \<lparr>duration = 4\<rparr> \<and>
   snd (snd (onmessage_resume example_decodeAudioData 9 1005 1006 (audio_message ''AAAA'' False) 2 ''AAAA''
       (example_live\<lparr>nextStartTimeRef := 8\<rparr>))) =
     [SourceConnect 9 5, SourceStart 9 \<lparr>duration = 4\<rparr> 8] \<and>
   nextStartTimeRef (fst (snd (onmessage_resume example_decodeAudioData 9 1005 1006
       (audio_message ''AAAA'' False) 2 ''AAAA'' (example_live\<lparr>nextStartTimeRef := 8\<rparr>)))) = 12 \<and>
   snd (snd (onmessage_resume example_decodeAudioData 9 1005 1006 (audio_message ''AAAA'' False) 2 ''AAAA''
       (fst (snd (onmessage_begin 7 1003 1004 (audio_message ''AAAA'' False) example_live))))) =
     [SourceConnect 9 5, SourceStart 9 \<lparr>duration = 4\<rparr> 7] \<and>
   nextStartTimeRef (fst (snd (onmessage_resume example_decodeAudioData 9 1005 1006
       (audio_message ''AAAA'' False) 2 ''AAAA''
       (fst (snd (onmessage_begin 7 1003 1004 (audio_message ''AAAA'' False) example_live)))))) = 11 \<and>
   outputNodeRef (fst (cleanup example_live)) = None \<and>
   onmessage_begin 7 2001 2002 (audio_message ''AAAA'' False) (fst (cleanup example_live)) =
     (Returned, fst (cleanup example_live), [])"
  using onmessage_schedules_audio [where message = "audio_message ''AAAA'' False" and payload = "''AAAA''"
      and s = example_live and ctx = 2 and outputNode = 5 and currentTime = 7 and nowA = 1003
      and nowB = 1004 and decodeAudioData = example_decodeAudioData
      and audioBuffer = "\<lparr>duration = 4\<rparr>" and s' = "example_live\<lparr>nextStartTimeRef := 8\<rparr>"
      and outputNode' = 5 and source = 9 and nowC = 1005 and nowD = 1006 and audio = None]
    onmessage_schedules_audio [where message = "audio_message ''AAAA'' False" and payload = "''AAAA''"
      and s = "fst (cleanup example_live)" and ctx = 2 and outputNode = 5 and currentTime = 7
      and nowA = 2001 and nowB = 2002 and decodeAudioData = example_decodeAudioData
      and audioBuffer = "\<lparr>duration = 4\<rparr>" and s' = "example_live\<lparr>nextStartTimeRef := 8\<rparr>"
      and outputNode' = 5 and source = 9 and nowC = 1005 and nowD = 1006 and audio = "Some ''AAAA''"]
  by (simp add: onmessage_begin_def onmessage_resume_def onmessage_finish_def audio_to_play_def
      handleTurnComplete_def handleInterruption_def fst_cleanup base64Audio_def audio_message_def
      example_live_def example_decodeAudioData_def has_interrupted_def has_turnComplete_def
      Set_add_def Let_def)

text \<open>
  C1 as stated fails in three ways. After the user has ended the session the references
  are \<open>null\<close>, and an audio message that still arrives is not scheduled. When a
  message carries both audio and the interrupted flag, the buffer is started at 7 and
  lasts 4 seconds, yet the scalar is 0 afterwards, not 11. And when a second audio
  message arrives at 8 while the handler of the first, which arrived at 7 with the
  scalar at 0, waits for its decoding, the first buffer is started at 8, not at 7.
\<close>

theorem onmessage_schedules_audio_counterexample:
  "base64Audio (audio_message ''AAAA'' False) = Inr (Some ''AAAA'') \<and>
   onmessage_begin 7 2001 2002 (audio_message ''AAAA'' False) (fst (handleDisconnect 2000 example_live)) =
     (Returned, fst (handleDisconnect 2000 example_live), []) \<and>
   SourceStart 9 \<lparr>duration = 4\<rparr> 7
     \<in> set (snd (snd (onmessage_resume example_decodeAudioData 9 1005 1006 (audio_message ''AAAA'' True) 2 ''AAAA''
          (fst (snd (onmessage_begin 7 1003 1004 (audio_message ''AAAA'' True) example_live)))))) \<and>
   nextStartTimeRef (fst (snd (onmessage_resume example_decodeAudioData 9 1005 1006
       (audio_message ''AAAA'' True) 2 ''AAAA''
       (fst (snd (onmessage_begin 7 1003 1004 (audio_message ''AAAA'' True) example_live)))))) = 0 \<and>
   max 7 (nextStartTimeRef example_live) = 7 \<and>
   snd (snd (onmessage_resume example_decodeAudioData 9 1007 1008 (audio_message ''AAAA'' False) 2 ''AAAA''
       (fst (snd (onmessage_begin 8 1005 1006 (audio_message ''AAAA'' False)
          (fst (snd (onmessage_begin 7 1003 1004 (audio_message ''AAAA'' False) example_live)))))))) =
     [SourceConnect 9 5, SourceStart 9 \<lparr>duration = 4\<rparr> 8]"
  by (simp add: onmessage_begin_def onmessage_resume_def onmessage_finish_def audio_to_play_def
      handleTurnComplete_def handleInterruption_def handleDisconnect_def cleanup_def base64Audio_def
      audio_message_def example_live_def example_decodeAudioData_def has_interrupted_def
      has_turnComplete_def addLog_def Set_add_def Let_def)





lemma quiet_step:
  assumes "quiet e" and "outputAudioContextRef s \<noteq> None" and "outputNodeRef s \<noteq> None"
  shows "nextStartTimeRef (fst (step createBlob decodeAudioData e s)) =
           (if audio_arrival e then max (nextStartTimeRef s) (arrival_time e) else nextStartTimeRef s)"
    and "outputAudioContextRef (fst (step createBlob decodeAudioData e s)) \<noteq> None"
    and "outputNodeRef (fst (step createBlob decodeAudioData e s)) \<noteq> None"
    and "started (snd (step createBlob decodeAudioData e s)) = []"
  using assms
  by (cases e;
      auto simp add: handleConnect_begin_def handleConnect_stream_def handleConnect_session_def
        onopen_def onaudioprocess_def onmessage_begin_def onmessage_finish_def audio_to_play_def
        handleTurnComplete_def handleInterruption_def source_ended_def handleImageUpload_def
        reader_onload_def handleSendText_def handleKeyDown_def textInput_onChange_def
        triggerFileUpload_def addLog_def Let_def
        split: option.splits sum.splits if_splits)+

lemma run_quiet:
  assumes "\<forall>e \<in> set es. quiet e"
    and "outputAudioContextRef s \<noteq> None" and "outputNodeRef s \<noteq> None"
  shows "nextStartTimeRef (fst (run createBlob decodeAudioData es s)) = latest es (nextStartTimeRef s) \<and>
     outputNodeRef (fst (run createBlob decodeAudioData es s)) \<noteq> None \<and>
     started (snd (run createBlob decodeAudioData es s)) = []"
  using assms
proof (induction es arbitrary: s)
  case Nil
  then show ?case by simp
next
  case (Cons e es)
  from Cons.prems have e: "quiet e" and es: "\<forall>e \<in> set es. quiet e"
    by simp_all
  note first = quiet_step [OF e Cons.prems(2) Cons.prems(3), of createBlob decodeAudioData]
  from Cons.IH [OF es first(2) first(3)] first(1) first(4)
  show ?case by (simp add: split_beta started_append)
qed

lemma latest_ge: "t \<le> latest es t"
proof (induction es arbitrary: t)
  case Nil
  show ?case by simp
next
  case (Cons e es)
  have "t \<le> (if audio_arrival e then max t (arrival_time e) else t)" by simp
  also have "\<dots> \<le> latest es (if audio_arrival e then max t (arrival_time e) else t)"
    by (rule Cons.IH)
  finally show ?case by simp
qed

lemma latest_early:
  "\<forall>e \<in> set es. audio_arrival e \<longrightarrow> arrival_time e \<le> t \<Longrightarrow> latest es t = t"
  by (induction es arbitrary: t) (auto simp add: max_absorb1)

lemma Max_insert_max:
  "finite A \<Longrightarrow> Max (insert (max t a) A) = max (t :: real) (Max (insert a A))"
  by (cases "A = {}") (simp_all add: max.assoc)

lemma latest_Max:
  "latest es t = Max (insert t (arrival_time ` {e \<in> set es. audio_arrival e}))"
proof (induction es arbitrary: t)
  case Nil
  show ?case by simp
next
  case (Cons e es)
  have fin: "finite (arrival_time ` {e \<in> set es. audio_arrival e})" by simp
  show ?case
  proof (cases "audio_arrival e")
    case True
    then have "{x \<in> set (e # es). audio_arrival x} = insert e {x \<in> set es. audio_arrival x}"
      by auto
    with True show ?thesis
      using Max_insert_max [OF fin, of t "arrival_time e"] by (simp add: Cons.IH)
  next
    case False
    then have "{x \<in> set (e # es). audio_arrival x} = {x \<in> set es. audio_arrival x}"
      by auto
    with False show ?thesis by (simp add: Cons.IH)
  qed
qed

text \<open>
  C3, as amended. Take two buffers scheduled one after the other, with any handlers
  run in between that are neither an interruption nor a teardown (microphone frames,
  ended sources, arrivals of further messages, text and image handlers), while the
  output context and node are set. The second buffer starts at the maximum of the end
  time of the first and of the values of \<open>ctx.currentTime\<close> read by the audio
  messages that arrived in between. So it never starts before the first one ends, and
  it starts exactly at that end time, without a gap, whenever those messages arrived
  before the first buffer has finished playing.
\<close>

theorem playback_start_times:
  assumes "outputAudioContextRef s \<noteq> None" and "outputNodeRef s = Some outputNode"
    and "decodeAudioData payloadA = Some bufferA" and "\<not> has_interrupted messageA"
    and "\<forall>e \<in> set between. quiet e"
    and "decodeAudioData payloadB = Some bufferB"
  shows "started (snd (snd (onmessage_resume decodeAudioData sourceA nowA nowB messageA ctxA payloadA s))) =
       [(nextStartTimeRef s, nextStartTimeRef s + duration bufferA)] \<and>
     started (snd (snd (onmessage_resume decodeAudioData sourceB nowC nowD messageB ctxB payloadB
         (fst (run createBlob decodeAudioData between
            (fst (snd (onmessage_resume decodeAudioData sourceA nowA nowB messageA ctxA payloadA s)))))))) =
       [(latest between (nextStartTimeRef s + duration bufferA),
         latest between (nextStartTimeRef s + duration bufferA) + duration bufferB)] \<and>
     latest between (nextStartTimeRef s + duration bufferA) =
       Max (insert (nextStartTimeRef s + duration bufferA)
              (arrival_time ` {e \<in> set between. audio_arrival e})) \<and>
     nextStartTimeRef s + duration bufferA \<le> latest between (nextStartTimeRef s + duration bufferA) \<and>
     ((\<forall>e \<in> set between. audio_arrival e \<longrightarrow> arrival_time e \<le> nextStartTimeRef s + duration bufferA) \<longrightarrow>
        latest between (nextStartTimeRef s + duration bufferA) = nextStartTimeRef s + duration bufferA)"
proof -
  let ?r1 = "onmessage_resume decodeAudioData sourceA nowA nowB messageA ctxA payloadA s"
  let ?s1 = "fst (snd ?r1)"
  let ?s2 = "fst (run createBlob decodeAudioData between ?s1)"
  have r1: "started (snd (snd ?r1)) = [(nextStartTimeRef s, nextStartTimeRef s + duration bufferA)]"
    and n1: "nextStartTimeRef ?s1 = nextStartTimeRef s + duration bufferA"
    and c1: "outputAudioContextRef ?s1 \<noteq> None" and o1: "outputNodeRef ?s1 \<noteq> None"
    using assms(1-4)
    by (simp_all add: onmessage_resume_starts snd_onmessage_finish fst_onmessage_finish)
  from run_quiet [OF assms(5) c1 o1, of createBlob decodeAudioData]
  have n2: "nextStartTimeRef ?s2 = latest between (nextStartTimeRef s + duration bufferA)"
    and o2: "outputNodeRef ?s2 \<noteq> None"
    by (simp_all add: n1)
  from o2 obtain node where node: "outputNodeRef ?s2 = Some node" by blast
  have r2: "started (snd (snd (onmessage_resume decodeAudioData sourceB nowC nowD messageB ctxB payloadB ?s2))) =
      [(latest between (nextStartTimeRef s + duration bufferA),
        latest between (nextStartTimeRef s + duration bufferA) + duration bufferB)]"
    using assms(6) node
    by (simp add: onmessage_resume_starts snd_onmessage_finish started_map_SourceStop n2)
  show ?thesis
    using r1 r2 latest_ge [of "nextStartTimeRef s + duration bufferA" between]
      latest_early [of between "nextStartTimeRef s + duration bufferA"]
      latest_Max [of between "nextStartTimeRef s + duration bufferA"]
    by blast
qed

theorem playback_start_times_witness:
  "outputAudioContextRef (example_live\<lparr>nextStartTimeRef := 7\<rparr>) \<noteq> None \<and>
   outputNodeRef (example_live\<lparr>nextStartTimeRef := 7\<rparr>) = Some 5 \<and>
   example_decodeAudioData ''AAAA'' = Some \<lparr>duration = 4\<rparr> \<and>
   \<not> has_interrupted (audio_message ''AAAA'' False) \<and>
   quiet (OnAudioProcess 6 [1, - 1]) \<and> quiet (SourceEnded 3) \<and>
   quiet (OnMessage 8 1007 1008 (audio_message ''AAAAAAAA'' False)) \<and>
   audio_arrival (OnMessage 8 1007 1008 (audio_message ''AAAAAAAA'' False)) \<and>
   started (snd (snd (onmessage_resume example_decodeAudioData 9 1005 1006 (audio_message ''AAAA'' False)
       2 ''AAAA'' (example_live\<lparr>nextStartTimeRef := 7\<rparr>)))) = [(7, 11)] \<and>
   started (snd (snd (onmessage_resume example_decodeAudioData 10 1009 1010 (audio_message ''AAAAAAAA'' False)
       2 ''AAAAAAAA''
       (fst (run example_createBlob example_decodeAudioData
          [OnAudioProcess 6 [1, - 1], SourceEnded 3,
           OnMessage 8 1007 1008 (audio_message ''AAAAAAAA'' False)]
          (fst (snd (onmessage_resume example_decodeAudioData 9 1005 1006 (audio_message ''AAAA'' False)
             2 ''AAAA'' (example_live\<lparr>nextStartTimeRef := 7\<rparr>))))))))) = [(11, 19)]"
  using playback_start_times [where s = "example_live\<lparr>nextStartTimeRef := 7\<rparr>" and outputNode = 5
      and decodeAudioData = example_decodeAudioData and payloadA = "''AAAA''"
      and bufferA = "\<lparr>duration = 4\<rparr>" and messageA = "audio_message ''AAAA'' False"
      and between = "[OnAudioProcess 6 [1, - 1], SourceEnded 3,
           OnMessage 8 1007 1008 (audio_message ''AAAAAAAA'' False)]"
      and payloadB = "''AAAAAAAA''" and bufferB = "\<lparr>duration = 8\<rparr>"
      and sourceA = 9 and nowA = 1005 and nowB = 1006 and ctxA = 2
      and sourceB = 10 and nowC = 1009 and nowD = 1010 and ctxB = 2
      and messageB = "audio_message ''AAAAAAAA'' False" and createBlob = example_createBlob]
  by (simp add: base64Audio_def audio_message_def example_live_def example_decodeAudioData_def
      has_interrupted_def del: run.simps)

text \<open>
  C3 as stated fails when a buffer arrives after the previous one has finished: the
  first buffer plays from 7 to 11, the second message arrives at 20 and its buffer
  starts at 20, not at 11.
\<close>

theorem playback_start_times_counterexample:
  "\<not> has_interrupted (audio_message ''AAAA'' False) \<and>
   started (snd (run example_createBlob example_decodeAudioData
      [OnMessage 7 1003 1004 (audio_message ''AAAA'' False),
       OnMessageResume 9 1005 1006 (audio_message ''AAAA'' False) 2 ''AAAA'',
       OnMessage 20 1007 1008 (audio_message ''AAAA'' False),
       OnMessageResume 10 1009 1010 (audio_message ''AAAA'' False) 2 ''AAAA''] example_live)) =
     [(7, 11), (20, 24)]"
  by (simp add: onmessage_begin_def onmessage_resume_def onmessage_finish_def audio_to_play_def
      handleTurnComplete_def handleInterruption_def base64Audio_def audio_message_def
      example_live_def example_decodeAudioData_def has_interrupted_def has_turnComplete_def
      Set_add_def Let_def)

subsection \<open>Teardown on error\<close>

text \<open>
  C4. When \<open>onerror\<close> fires, the connection state becomes \<open>ERROR\<close>; the session
  reference, the media stream, both audio contexts, the script processor and the output
  node are \<open>null\<close>; the set of sources is empty, the next-start-time scalar and the
  volume are zero. The calls made are the teardown and nothing else: the error is
  written to the console, every track of the stream is stopped, the contexts that exist
  are closed and every source in the set is stopped. Nothing reconnects. Of the state
  before, the handler keeps the log only, with one entry added.
\<close>

theorem onerror_tears_down:
  "onerror now s =
     (\<lparr>connectionState = ERROR,
       logs = logs s @ [\<lparr>log_type = system, log_text = text_error, timestamp = now\<rparr>],
       volume = 0, textInput = [],
       inputAudioContextRef = None, outputAudioContextRef = None, mediaStreamRef = None,
       scriptProcessorRef = None, outputNodeRef = None, nextStartTimeRef = 0,
       sourcesRef = [], sessionRef = None\<rparr>,
      ConsoleError #
      (case mediaStreamRef s of None \<Rightarrow> [] | Some stream \<Rightarrow> map TrackStop (getTracks stream)) @
      (case inputAudioContextRef s of None \<Rightarrow> [] | Some ctx \<Rightarrow> [ContextClose ctx]) @
      (case outputAudioContextRef s of None \<Rightarrow> [] | Some ctx \<Rightarrow> [ContextClose ctx]) @
      map SourceStop (sourcesRef s))"
  by (cases s) (simp add: onerror_def cleanup_def addLog_def Let_def)

subsection \<open>The volume meter and the microphone frames\<close>

lemma fold_sum_squares:
  "fold (\<lambda>x sum. sum + x * x) xs acc = (acc :: real) + (\<Sum>x\<leftarrow>xs. x\<^sup>2)"
  by (induction xs arbitrary: acc) (simp_all add: power2_eq_square)

text \<open>
  C5, as amended. For every frame that is not empty, the audio callback computes the
  RMS of the frame, the square root of the mean of the squared samples; it sets the
  volume to the larger of five times that RMS and nine tenths of the volume before; and
  it hands the blob that \<open>createBlob\<close> makes of the frame to \<open>sendRealtimeInput\<close> of
  the session.
\<close>

theorem onaudioprocess_volume_and_send:
  "inputData \<noteq> [] \<longrightarrow>
     rms inputData = sqrt ((\<Sum>x\<leftarrow>inputData. x\<^sup>2) / real (length inputData)) \<and>
     onaudioprocess createBlob session inputData s =
       (s\<lparr>volume := max (5 * rms inputData) (0.9 * volume s)\<rparr>,
        [SendRealtimeInput session (Media (createBlob inputData))])"
  by (simp add: rms_def onaudioprocess_def fold_sum_squares Let_def mult.commute)

theorem onaudioprocess_volume_and_send_witness:
  "[1, - 1] \<noteq> ([] :: real list) \<and> rms [1, - 1] = 1 \<and>
   onaudioprocess example_createBlob 6 [1, - 1] example_live =
     (example_live\<lparr>volume := 5\<rparr>, [SendRealtimeInput 6 (Media (example_createBlob [1, - 1]))])"
  using onaudioprocess_volume_and_send [of "[1, - 1]" example_createBlob 6 example_live]
  by (simp add: example_live_def)

text \<open>
  C5 as stated fails: the volume the callback computes is not the RMS of the frame. On
  the frame \<open>[1, -1]\<close> the RMS is 1 and the volume becomes 5; on a silent frame after a
  volume of 1 the RMS is 0 and the volume becomes 0.9.
\<close>

theorem onaudioprocess_volume_and_send_counterexample:
  "volume (fst (onaudioprocess example_createBlob 6 [1, - 1] example_live)) = 5 \<and>
   rms [1, - 1] = 1 \<and>
   volume (fst (onaudioprocess example_createBlob 6 [0, 0] (example_live\<lparr>volume := 1\<rparr>))) = 9 / 10 \<and>
   rms [0, 0] = 0"
  by (simp add: onaudioprocess_def rms_def example_live_def Let_def)

subsection \<open>The connection state\<close>

lemma connectionState_step:
  "connectionState (fst (step createBlob decodeAudioData e s)) =
     (case e of
        HandleConnectBegin inputCtx outputCtx outputNode now \<Rightarrow> CONNECTING
      | HandleConnectCatch now \<Rightarrow> ERROR
      | OnOpen processor now \<Rightarrow> CONNECTED
      | OnClose now \<Rightarrow> DISCONNECTED
      | OnError now \<Rightarrow> ERROR
      | HandleDisconnect now \<Rightarrow> DISCONNECTED
      | _ \<Rightarrow> connectionState s)"
  by (cases e)
     (auto simp add: handleConnect_begin_def handleConnect_stream_def handleConnect_session_def
        handleConnect_catch_def onopen_def onaudioprocess_def onmessage_begin_def onmessage_resume_def
        onmessage_finish_def audio_to_play_def handleTurnComplete_def handleInterruption_def source_ended_def onclose_def onerror_def
        handleDisconnect_def handleImageUpload_def reader_onload_def handleSendText_def
        handleKeyDown_def textInput_onChange_def triggerFileUpload_def cleanup_def addLog_def
        Let_def split: option.splits sum.splits if_splits prod.splits)

lemma connectionState_cases:
  "(UNIV :: ConnectionState set) = {DISCONNECTED, CONNECTING, CONNECTED, ERROR}"
  using ConnectionState.exhaust by auto

text \<open>
  C6. The connection state is one of four distinct values, \<open>DISCONNECTED\<close>,
  \<open>CONNECTING\<close>, \<open>CONNECTED\<close> and \<open>ERROR\<close>: it is \<open>DISCONNECTED\<close> at the first render,
  it is one of the four after any run of handlers, and each of the six places that call
  \<open>setConnectionState\<close> assigns one of the four.
\<close>

theorem connectionState_four_states:
  "(UNIV :: ConnectionState set) = {DISCONNECTED, CONNECTING, CONNECTED, ERROR} \<and>
   distinct [DISCONNECTED, CONNECTING, CONNECTED, ERROR] \<and>
   connectionState initial = DISCONNECTED \<and>
   connectionState (fst (run createBlob decodeAudioData es initial)) \<in> {DISCONNECTED, CONNECTING, CONNECTED, ERROR} \<and>
   connectionState (fst (handleConnect_begin inputCtx outputCtx outputNode now s)) = CONNECTING \<and>
   connectionState (fst (handleConnect_catch now s)) = ERROR \<and>
   connectionState (fst (onopen processor now s)) = CONNECTED \<and>
   connectionState (fst (onclose now s)) = DISCONNECTED \<and>
   connectionState (fst (onerror now s)) = ERROR \<and>
   connectionState (fst (handleDisconnect now s)) = DISCONNECTED"
  using connectionState_cases
    connectionState_step [of createBlob decodeAudioData "HandleConnectBegin inputCtx outputCtx outputNode now" s]
    connectionState_step [of createBlob decodeAudioData "HandleConnectCatch now" s]
    connectionState_step [of createBlob decodeAudioData "OnOpen processor now" s]
    connectionState_step [of createBlob decodeAudioData "OnClose now" s]
    connectionState_step [of createBlob decodeAudioData "OnError now" s]
    connectionState_step [of createBlob decodeAudioData "HandleDisconnect now" s]
  by (simp add: initial_def)

text \<open>
  C7, as amended. The connection state is changed only by the session callbacks
  \<open>onopen\<close>, \<open>onclose\<close> and \<open>onerror\<close> and by the click handlers \<open>handleConnect\<close>
  (to \<open>CONNECTING\<close> on entry, to \<open>ERROR\<close> in its \<open>catch\<close> block) and
  \<open>handleDisconnect\<close> (to \<open>DISCONNECTED\<close>). No other code of the component changes
  it.
\<close>

theorem connectionState_changed_by:
  "(\<not> session_callback e \<and> \<not> connect_or_disconnect e \<longrightarrow>
      connectionState (fst (step createBlob decodeAudioData e s)) = connectionState s) \<and>
   connectionState (fst (handleConnect_begin inputCtx outputCtx outputNode now s)) = CONNECTING \<and>
   connectionState (fst (handleConnect_catch now s)) = ERROR \<and>
   connectionState (fst (handleDisconnect now s)) = DISCONNECTED"
  using connectionState_step [of createBlob decodeAudioData e s]
    connectionState_step [of createBlob decodeAudioData "HandleConnectBegin inputCtx outputCtx outputNode now" s]
    connectionState_step [of createBlob decodeAudioData "HandleConnectCatch now" s]
    connectionState_step [of createBlob decodeAudioData "HandleDisconnect now" s]
  by (cases e) simp_all

theorem connectionState_changed_by_witness:
  "\<not> session_callback (OnMessage 7 1003 1004 interrupted_message) \<and>
   \<not> connect_or_disconnect (OnMessage 7 1003 1004 interrupted_message) \<and>
   connectionState (fst (snd (onmessage_begin 7 1003 1004 interrupted_message example_live))) = CONNECTED"
  using connectionState_changed_by [of "OnMessage 7 1003 1004 interrupted_message"
      example_createBlob example_decodeAudioData example_live]
  by (simp add: example_live_def)

text \<open>
  C7 as stated fails: \<open>handleDisconnect\<close> and \<open>handleConnect\<close> are click handlers,
  not session callbacks, and both change the connection state.
\<close>

theorem connectionState_changed_by_counterexample:
  "\<not> session_callback (HandleDisconnect 2000) \<and>
   connectionState example_live = CONNECTED \<and>
   connectionState (fst (step example_createBlob example_decodeAudioData (HandleDisconnect 2000) example_live)) = DISCONNECTED \<and>
   \<not> session_callback (HandleConnectBegin 1 2 5 1000) \<and>
   connectionState initial = DISCONNECTED \<and>
   connectionState (fst (step example_createBlob example_decodeAudioData (HandleConnectBegin 1 2 5 1000) initial)) = CONNECTING"
  by (simp add: handleDisconnect_def handleConnect_begin_def cleanup_def addLog_def example_live_def
      initial_def Let_def)

subsection \<open>The log\<close>

lemma logs_step:
  "\<exists>new. logs (fst (step createBlob decodeAudioData e s)) = logs s @ new \<and> length new \<le> 2"
  by (cases e)
     (auto simp add: handleConnect_begin_def handleConnect_stream_def handleConnect_session_def
        handleConnect_catch_def onopen_def onaudioprocess_def onmessage_begin_def onmessage_resume_def
        onmessage_finish_def audio_to_play_def handleTurnComplete_def handleInterruption_def source_ended_def onclose_def onerror_def
        handleDisconnect_def handleImageUpload_def reader_onload_def handleSendText_def
        handleKeyDown_def textInput_onChange_def triggerFileUpload_def cleanup_def addLog_def
        Let_def split: option.splits sum.splits if_splits prod.splits)

text \<open>
  C8, as amended. \<open>addLog\<close> appends exactly one entry, tagged \<open>user\<close>, \<open>model\<close> or
  \<open>system\<close>, to the end of the log; every handler of the component leaves the entries
  already in the log in place and in order, adding at most two at the end. The
  timestamps stay in non-decreasing order as long as the reading of \<open>Date.now()\<close> is not
  earlier than the timestamps already in the log: the entry records the reading as it
  is.
\<close>

theorem logs_append_only:
  "logs (addLog ty txt now s) = logs s @ [\<lparr>log_type = ty, log_text = txt, timestamp = now\<rparr>] \<and>
   (ty = user \<or> ty = model \<or> ty = system) \<and>
   (\<exists>new. logs (fst (step createBlob decodeAudioData e s)) = logs s @ new \<and> length new \<le> 2) \<and>
   (sorted (map timestamp (logs s)) \<and> (\<forall>entry \<in> set (logs s). timestamp entry \<le> now) \<longrightarrow>
      sorted (map timestamp (logs (addLog ty txt now s))))"
  using logs_step [of createBlob decodeAudioData e s]
  by (cases ty) (auto simp add: addLog_def sorted_append)

theorem logs_append_only_witness:
  "map timestamp (logs example_live) = [1000, 1001, 1002] \<and>
   sorted (map timestamp (logs example_live)) \<and>
   map timestamp (logs (addLog system text_turn_complete 1003 example_live)) = [1000, 1001, 1002, 1003] \<and>
   sorted (map timestamp (logs (addLog system text_turn_complete 1003 example_live)))"
  using logs_append_only [of system text_turn_complete 1003 example_live]
  by (simp add: example_live_def addLog_def)

text \<open>
  C8 as stated fails when the wall clock is set back between two entries: an entry
  written at 900 follows the entries written at 1000, 1001 and 1002.
\<close>

theorem logs_append_only_counterexample:
  "map timestamp (logs (fst (onclose 900 example_live))) = [1000, 1001, 1002, 900] \<and>
   \<not> sorted (map timestamp (logs (fst (onclose 900 example_live))))"
  by (simp add: onclose_def cleanup_def addLog_def example_live_def Let_def)

subsection \<open>Sending text\<close>

text \<open>
  C10. \<open>handleSendText\<close> is guarded. When the text input trims to the empty string or
  the session reference is \<open>null\<close>, it sends nothing, writes no log entry and leaves
  the text input as it is. Otherwise it appends one \<open>user\<close> entry with the trimmed
  text to the log, sends the trimmed text to the session and sets the text input to
  the empty string.
\<close>

theorem handleSendText_guarded:
  "(trim (textInput s) = [] \<or> sessionRef s = None \<longrightarrow> handleSendText now s = (s, [])) \<and>
   (trim (textInput s) \<noteq> [] \<and> sessionRef s = Some session \<longrightarrow>
      handleSendText now s =
        (s\<lparr>logs := logs s @ [\<lparr>log_type = user, log_text = trim (textInput s), timestamp = now\<rparr>],
           textInput := []\<rparr>,
         [SendRealtimeInput session (UserText (trim (textInput s)))]))"
  by (auto simp add: handleSendText_def addLog_def Let_def)

theorem handleSendText_guarded_witness:
  "trim (textInput (example_live\<lparr>textInput := ''   ''\<rparr>)) = [] \<and>
   handleSendText 1003 (example_live\<lparr>textInput := ''   ''\<rparr>) = (example_live\<lparr>textInput := ''   ''\<rparr>, []) \<and>
   sessionRef (initial\<lparr>textInput := ''hi''\<rparr>) = None \<and>
   handleSendText 1003 (initial\<lparr>textInput := ''hi''\<rparr>) = (initial\<lparr>textInput := ''hi''\<rparr>, []) \<and>
   trim (textInput (example_live\<lparr>textInput := ''  hi there ''\<rparr>)) = ''hi there'' \<and>
   sessionRef (example_live\<lparr>textInput := ''  hi there ''\<rparr>) = Some 6 \<and>
   handleSendText 1003 (example_live\<lparr>textInput := ''  hi there ''\<rparr>) =
     (example_live\<lparr>logs := logs example_live @ [\<lparr>log_type = user, log_text = ''hi there'', timestamp = 1003\<rparr>],
        textInput := []\<rparr>,
      [SendRealtimeInput 6 (UserText ''hi there'')])"
  using handleSendText_guarded [of "example_live\<lparr>textInput := ''   ''\<rparr>" 1003 6]
    handleSendText_guarded [of "initial\<lparr>textInput := ''hi''\<rparr>" 1003 6]
    handleSendText_guarded [of "example_live\<lparr>textInput := ''  hi there ''\<rparr>" 1003 6]
  by (simp add: trim_def isWhiteSpace_def example_live_def initial_def)

end
